theory Spec2Isabelle
  imports Main "HOL-Library.AList"
begin


section \<open>Values exchanged with the service\<close>

text \<open>
  The client (\<^verbatim>\<open>md.py\<close>) handles what \<^verbatim>\<open>json.loads\<close> returns: \<^verbatim>\<open>None\<close>, booleans,
  integers, strings, lists and dictionaries with string keys. JSON numbers are restricted
  to integers; floating point values are outside this development.

  A Python dictionary keeps its keys in insertion order, and assigning to a key that is
  already present keeps the key's position. This is an association list with
  \<^const>\<open>AList.update\<close> as item assignment and \<^const>\<open>map_of\<close> as lookup.
\<close>

datatype json =
    JNull
  | JBool bool
  | JInt int
  | JStr string
  | JArr "json list"
  | JObj "(string \<times> json) list"

type_synonym ('k, 'v) dict = "('k \<times> 'v) list"

datatype error =
    KeyError string
  | TypeError
  | AttributeError
  | ValueError
  | TransportError string

definition bind_e :: "error + 'a \<Rightarrow> ('a \<Rightarrow> error + 'b) \<Rightarrow> error + 'b" where
  "bind_e m f = (case m of Inl e \<Rightarrow> Inl e | Inr x \<Rightarrow> f x)"

fun map_e :: "('a \<Rightarrow> error + 'b) \<Rightarrow> 'a list \<Rightarrow> error + 'b list" where
  "map_e f [] = Inr []"
| "map_e f (x # xs) =
     (case f x of
        Inl e \<Rightarrow> Inl e
      | Inr y \<Rightarrow> (case map_e f xs of Inl e \<Rightarrow> Inl e | Inr ys \<Rightarrow> Inr (y # ys)))"

text \<open>\<^verbatim>\<open>d[k]\<close> on a dictionary with string keys: a missing key raises \<^verbatim>\<open>KeyError\<close>.\<close>

definition getitem :: "(string, 'v) dict \<Rightarrow> string \<Rightarrow> error + 'v" where
  "getitem d k = (case map_of d k of None \<Rightarrow> Inl (KeyError k) | Some v \<Rightarrow> Inr v)"

text \<open>\<^verbatim>\<open>d[k] = v\<close>.\<close>

definition setitem :: "('k, 'v) dict \<Rightarrow> 'k \<Rightarrow> 'v \<Rightarrow> ('k, 'v) dict" where
  "setitem d k v = AList.update k v d"


text \<open>\<^verbatim>\<open>len(x)\<close> and iteration over a decoded JSON value.\<close>

definition py_len :: "json \<Rightarrow> error + nat" where
  "py_len x =
     (case x of
        JArr xs \<Rightarrow> Inr (length xs)
      | JObj d \<Rightarrow> Inr (length d)
      | JStr s \<Rightarrow> Inr (length s)
      | _ \<Rightarrow> Inl TypeError)"

definition py_iter :: "json \<Rightarrow> error + json list" where
  "py_iter x =
     (case x of
        JArr xs \<Rightarrow> Inr xs
      | JObj d \<Rightarrow> Inr (map (\<lambda>kv. JStr (fst kv)) d)
      | JStr s \<Rightarrow> Inr (map (\<lambda>c. JStr [c]) s)
      | _ \<Rightarrow> Inl TypeError)"

section \<open>Decimal numerals\<close>

definition is_digit :: "char \<Rightarrow> bool" where
  "is_digit c = (48 \<le> (of_char c :: nat) \<and> (of_char c :: nat) \<le> 57)"

definition digit_val :: "char \<Rightarrow> nat" where
  "digit_val c = of_char c - 48"

definition digit_char :: "nat \<Rightarrow> char" where
  "digit_char n = char_of (48 + n)"

definition int_of_digits :: "string \<Rightarrow> nat" where
  "int_of_digits ds = foldl (\<lambda>a c. 10 * a + digit_val c) 0 ds"

text \<open>\<^verbatim>\<open>str(n)\<close> for a non-negative integer, and for any integer.\<close>

fun str_nat :: "nat \<Rightarrow> string" where
  "str_nat n = (if n < 10 then [digit_char n] else str_nat (n div 10) @ [digit_char (n mod 10)])"

declare str_nat.simps [simp del]

definition str_int :: "int \<Rightarrow> string" where
  "str_int i = (if i < 0 then CHR ''-'' # str_nat (nat (- i)) else str_nat (nat i))"

text \<open>The conversions \<^verbatim>\<open>%02d\<close> and \<^verbatim>\<open>%04d\<close>: pad with zeros on the left up to a width.\<close>

definition zero_pad :: "nat \<Rightarrow> string \<Rightarrow> string" where
  "zero_pad w s = replicate (w - length s) CHR ''0'' @ s"

section \<open>Timestamps\<close>

text \<open>
  A \<^verbatim>\<open>datetime.datetime\<close> value at a resolution of one second. The offset from UTC is
  kept in minutes (\<^verbatim>\<open>None\<close> for a naive value), as \<^verbatim>\<open>%z\<close> reads and writes it.
\<close>

record datetime =
  year :: nat
  month :: nat
  day :: nat
  hour :: nat
  minute :: nat
  second :: nat
  utcoffset :: "int option"

definition is_leap :: "nat \<Rightarrow> bool" where
  "is_leap y = (y mod 4 = 0 \<and> (y mod 100 \<noteq> 0 \<or> y mod 400 = 0))"

definition days_in_month :: "nat \<Rightarrow> nat \<Rightarrow> nat" where
  "days_in_month y m =
     (if m = 2 then (if is_leap y then 29 else 28)
      else if m = 4 \<or> m = 6 \<or> m = 9 \<or> m = 11 then 30 else 31)"

text \<open>The checks of the \<^verbatim>\<open>datetime\<close> and \<^verbatim>\<open>timezone\<close> constructors.\<close>

definition valid_datetime :: "datetime \<Rightarrow> bool" where
  "valid_datetime d =
     (1 \<le> year d \<and> year d \<le> 9999 \<and> 1 \<le> month d \<and> month d \<le> 12 \<and>
      1 \<le> day d \<and> day d \<le> days_in_month (year d) (month d) \<and>
      hour d \<le> 23 \<and> minute d \<le> 59 \<and> second d \<le> 59 \<and>
      (case utcoffset d of None \<Rightarrow> True | Some off \<Rightarrow> - 1440 < off \<and> off < 1440))"

subsection \<open>Parsing with the format \<^verbatim>\<open>%Y-%m-%dT%H:%M:%S%z\<close>\<close>

text \<open>
  \<^verbatim>\<open>strptime\<close> turns each directive into a regular expression and matches the whole
  string, ignoring case: \<^verbatim>\<open>%Y\<close> is four digits; \<^verbatim>\<open>%m\<close>, \<^verbatim>\<open>%d\<close>, \<^verbatim>\<open>%H\<close>, \<^verbatim>\<open>%M\<close> and
  \<^verbatim>\<open>%S\<close> are one or two digits within the directive's range (a day may also be a space
  and one digit); \<^verbatim>\<open>%z\<close> is a sign and four digits \<^verbatim>\<open>HHMM\<close>, which is the reason why
  the client removes the colon of the service's \<^verbatim>\<open>+HH:MM\<close> first. Every directive here is
  followed by a character that is not a digit, or by the end of the string, so a field is
  the longest run of digits at its position. The digits are the ASCII digits. The values
  read are then checked by the constructors of \<^verbatim>\<open>datetime\<close> and \<^verbatim>\<open>timezone\<close>, and
  every failure is a \<^verbatim>\<open>ValueError\<close>.
\<close>

definition num_field :: "nat \<Rightarrow> nat \<Rightarrow> nat \<Rightarrow> nat \<Rightarrow> string \<Rightarrow> (nat \<times> string) option" where
  "num_field minw maxw lo hi s =
     (let ds = takeWhile is_digit s; n = int_of_digits ds in
      if minw \<le> length ds \<and> length ds \<le> maxw \<and> lo \<le> n \<and> n \<le> hi
      then Some (n, dropWhile is_digit s) else None)"

definition day_field :: "string \<Rightarrow> (nat \<times> string) option" where
  "day_field s =
     (case s of
        [] \<Rightarrow> None
      | c # r \<Rightarrow> if c = CHR '' '' then num_field 1 1 1 9 r else num_field 1 2 1 31 s)"

definition literal :: "char \<Rightarrow> string \<Rightarrow> string option" where
  "literal c s = (case s of [] \<Rightarrow> None | x # r \<Rightarrow> if x = c then Some r else None)"

definition literal_T :: "string \<Rightarrow> string option" where
  "literal_T s =
     (case s of [] \<Rightarrow> None | x # r \<Rightarrow> if x = CHR ''T'' \<or> x = CHR ''t'' then Some r else None)"

text \<open>\<^verbatim>\<open>%z\<close>: the offset in minutes, negated after a minus sign.\<close>

definition tz_field :: "string \<Rightarrow> int option" where
  "tz_field s =
     (case s of
        [sg, h1, h2, m1, m2] \<Rightarrow>
          if (sg = CHR ''+'' \<or> sg = CHR ''-'') \<and> is_digit h1 \<and> is_digit h2 \<and>
             is_digit m1 \<and> digit_val m1 \<le> 5 \<and> is_digit m2
          then (let off = int (int_of_digits [h1, h2] * 60 + int_of_digits [m1, m2])
                in Some (if sg = CHR ''-'' then - off else off))
          else None
      | _ \<Rightarrow> None)"

definition parse_fields :: "string \<Rightarrow> datetime option" where
  "parse_fields s0 =
     Option.bind (num_field 4 4 0 9999 s0) (\<lambda>(y, s1).
     Option.bind (literal CHR ''-'' s1) (\<lambda>s2.
     Option.bind (num_field 1 2 1 12 s2) (\<lambda>(m, s3).
     Option.bind (literal CHR ''-'' s3) (\<lambda>s4.
     Option.bind (day_field s4) (\<lambda>(d, s5).
     Option.bind (literal_T s5) (\<lambda>s6.
     Option.bind (num_field 1 2 0 23 s6) (\<lambda>(H, s7).
     Option.bind (literal CHR '':'' s7) (\<lambda>s8.
     Option.bind (num_field 1 2 0 59 s8) (\<lambda>(M, s9).
     Option.bind (literal CHR '':'' s9) (\<lambda>s10.
     Option.bind (num_field 1 2 0 61 s10) (\<lambda>(S, s11).
     Option.bind (tz_field s11) (\<lambda>off.
       Some \<lparr>year = y, month = m, day = d, hour = H, minute = M, second = S,
             utcoffset = Some off\<rparr>))))))))))))"

definition strptime :: "string \<Rightarrow> error + datetime" where
  "strptime s =
     (case parse_fields s of
        None \<Rightarrow> Inl ValueError
      | Some d \<Rightarrow> if valid_datetime d then Inr d else Inl ValueError)"

subsection \<open>Formatting with the format \<^verbatim>\<open>%Y-%m-%dT%H:%M:%S%z\<close>\<close>

text \<open>
  Every numeric directive is written with leading zeros, \<^verbatim>\<open>%Y\<close> with four digits and the
  others with two, as the library documents them. \<^verbatim>\<open>%z\<close> is empty for a naive value,
  else the sign, the hours and the minutes.
\<close>

definition format_utcoffset :: "int option \<Rightarrow> string" where
  "format_utcoffset tz =
     (case tz of
        None \<Rightarrow> []
      | Some off \<Rightarrow>
          (if off < 0 then CHR ''-'' else CHR ''+'') #
          zero_pad 2 (str_nat (nat \<bar>off\<bar> div 60)) @ zero_pad 2 (str_nat (nat \<bar>off\<bar> mod 60)))"

definition strftime :: "datetime \<Rightarrow> string" where
  "strftime d =
     zero_pad 4 (str_nat (year d)) @ CHR ''-'' # zero_pad 2 (str_nat (month d)) @
     CHR ''-'' # zero_pad 2 (str_nat (day d)) @ CHR ''T'' # zero_pad 2 (str_nat (hour d)) @
     CHR '':'' # zero_pad 2 (str_nat (minute d)) @ CHR '':'' # zero_pad 2 (str_nat (second d)) @
     format_utcoffset (utcoffset d)"

subsection \<open>The instant a timestamp denotes\<close>





section \<open>\<^verbatim>\<open>str\<close> of a decoded JSON value\<close>

text \<open>
  \<^verbatim>\<open>str\<close> of a string is the string; of anything else it is \<^verbatim>\<open>repr\<close>. The \<^verbatim>\<open>repr\<close>
  of a string is quoted (with double quotes when it holds a single quote and no double
  quote), with the quote, the backslash and the control characters escaped.
\<close>

fun join :: "string \<Rightarrow> string list \<Rightarrow> string" where
  "join sep [] = []"
| "join sep [x] = x"
| "join sep (x # y # ys) = x @ sep @ join sep (y # ys)"

definition hex_digit :: "nat \<Rightarrow> char" where
  "hex_digit n = (if n < 10 then char_of (48 + n) else char_of (87 + n))"

definition repr_char :: "char \<Rightarrow> char \<Rightarrow> string" where
  "repr_char q c =
     (if c = q \<or> c = CHR 0x5C then [CHR 0x5C, c]
      else if c = CHR 0x09 then [CHR 0x5C, CHR ''t'']
      else if c = CHR 0x0A then [CHR 0x5C, CHR ''n'']
      else if c = CHR 0x0D then [CHR 0x5C, CHR ''r'']
      else if (of_char c :: nat) < 32 \<or> (of_char c :: nat) = 127
      then [CHR 0x5C, CHR ''x'', hex_digit (of_char c div 16), hex_digit (of_char c mod 16)]
      else [c])"

definition repr_str :: "string \<Rightarrow> string" where
  "repr_str s =
     (let q = (if CHR 0x27 \<in> set s \<and> CHR 0x22 \<notin> set s then CHR 0x22 else CHR 0x27)
      in q # concat (map (repr_char q) s) @ [q])"

fun py_repr :: "json \<Rightarrow> string" where
  "py_repr JNull = ''None''"
| "py_repr (JBool b) = (if b then ''True'' else ''False'')"
| "py_repr (JInt i) = str_int i"
| "py_repr (JStr s) = repr_str s"
| "py_repr (JArr xs) = ''['' @ join '', '' (map py_repr xs) @ '']''"
| "py_repr (JObj d) =
     ''{'' @ join '', '' (map (\<lambda>kv. repr_str (fst kv) @ '': '' @ py_repr (snd kv)) d) @ ''}''"

definition py_str :: "json \<Rightarrow> string" where
  "py_str x = (case x of JStr s \<Rightarrow> s | _ \<Rightarrow> py_repr x)"

section \<open>The transport\<close>

text \<open>
  \<^verbatim>\<open>_do_get\<close> and \<^verbatim>\<open>_do_put\<close> hand a request to the HTTPS opener, which is outside the
  client: here a function from the state of the world and a request to a response (the
  decoded JSON body, or the exception raised) and the next state of the world. The client's
  side of the state is the list of requests it has sent so far. A request is its method,
  the path under \<^verbatim>\<open>URL_BASE\<close>, the query arguments and, for a \<^verbatim>\<open>PUT\<close>, the body.
\<close>

datatype request =
    GET string "(string, string) dict"
  | PUT string "(string, string) dict" json

record 'w io =
  world :: 'w
  sent :: "request list"

type_synonym 'w transport = "'w \<Rightarrow> request \<Rightarrow> (error + json) \<times> 'w"

text \<open>
  \<^verbatim>\<open>_do_get\<close> stores the key in the dictionary it was given (the caller's dictionary is
  the same object, so the caller sees the new entry) and returns the decoded response.
\<close>

definition do_get ::
  "'w transport \<Rightarrow> string \<Rightarrow> 'w io \<Rightarrow> string \<Rightarrow> (string, string) dict \<Rightarrow>
     (error + json) \<times> (string, string) dict \<times> 'w io" where
  "do_get t api_key st req args =
     (let args' = setitem args ''api_key'' api_key;
          rq = GET req args';
          res = t (world st) rq
      in (fst res, args', \<lparr>world = snd res, sent = sent st @ [rq]\<rparr>))"

text \<open>\<^verbatim>\<open>_do_put\<close> reads the response and drops it.\<close>

definition do_put ::
  "'w transport \<Rightarrow> string \<Rightarrow> 'w io \<Rightarrow> string \<Rightarrow> json \<Rightarrow> (error + unit) \<times> 'w io" where
  "do_put t api_key st req obj =
     (let rq = PUT req [(''api_key'', api_key)] obj;
          res = t (world st) rq
      in ((case fst res of Inl e \<Rightarrow> Inl e | Inr _ \<Rightarrow> Inr ()),
          \<lparr>world = snd res, sent = sent st @ [rq]\<rparr>))"

section \<open>Entries\<close>

text \<open>
  An \<^verbatim>\<open>Entry\<close> keeps the dictionary it was made from and a copy of eight of its values.
  The attributes can be assigned freely afterwards, so a value of this record is any
  state an entry can be in. The reference to the owning \<^verbatim>\<open>MinuteDock\<close> object is passed
  to the operations that use it.
\<close>

record entry =
  raw :: "(string, json) dict"
  entry_id :: json
  user_id :: json
  contact_id :: json
  project_id :: json
  duration :: json
  description :: json
  timer_active :: json
  date :: datetime

text \<open>
  \<^verbatim>\<open>Entry.__init__\<close>. The timestamp loses its third character from the end
  (\<^verbatim>\<open>date[:-3] + date[-2:]\<close>) before it is parsed; only a string can be both sliced and
  parsed.
\<close>

definition drop_colon :: "string \<Rightarrow> string" where
  "drop_colon s = take (length s - 3) s @ drop (length s - 2) s"

definition Entry_init :: "json \<Rightarrow> error + entry" where
  "Entry_init r =
     (case r of
        JObj d \<Rightarrow>
          bind_e (getitem d ''id'') (\<lambda>v_id.
          bind_e (getitem d ''user_id'') (\<lambda>v_user.
          bind_e (getitem d ''contact_id'') (\<lambda>v_contact.
          bind_e (getitem d ''project_id'') (\<lambda>v_project.
          bind_e (getitem d ''duration'') (\<lambda>v_duration.
          bind_e (getitem d ''description'') (\<lambda>v_description.
          bind_e (getitem d ''timer_active'') (\<lambda>v_timer.
          bind_e (getitem d ''logged_at'') (\<lambda>v_logged.
            (case v_logged of
               JStr s \<Rightarrow>
                 bind_e (strptime (drop_colon s)) (\<lambda>dt.
                   Inr \<lparr>raw = d, entry_id = v_id, user_id = v_user, contact_id = v_contact,
                        project_id = v_project, duration = v_duration,
                        description = v_description, timer_active = v_timer, date = dt\<rparr>)
             | _ \<Rightarrow> Inl TypeError)))))))))
      | _ \<Rightarrow> Inl TypeError)"

text \<open>
  \<^verbatim>\<open>Entry.update\<close>: \<open>new_raw\<close> is the copy of the raw dictionary with five keys
  assigned from the attributes; it is sent as \<^verbatim>\<open>{'entry': new_raw}\<close>.
\<close>

definition new_raw :: "entry \<Rightarrow> (string, json) dict" where
  "new_raw e =
     setitem (setitem (setitem (setitem (setitem (raw e)
       ''user_id'' (user_id e))
       ''contact_id'' (contact_id e))
       ''project_id'' (project_id e))
       ''description'' (description e))
       ''logged_at'' (JStr (strftime (date e)))"

definition update :: "'w transport \<Rightarrow> string \<Rightarrow> 'w io \<Rightarrow> entry \<Rightarrow> (error + unit) \<times> 'w io" where
  "update t api_key st e =
     do_put t api_key st (''entries/'' @ py_str (entry_id e) @ ''.json'')
       (JObj [(''entry'', JObj (new_raw e))])"

section \<open>The catalogue\<close>

text \<open>
  The attribute names of the three catalogue classes overlap with each other and with
  those of \<^verbatim>\<open>Entry\<close>, so each field carries the name of its class.
\<close>

record user =
  User_raw :: "(string, json) dict"
  User_user_id :: json
  User_email :: string
  User_login :: string
  User_first_name :: json
  User_last_name :: json

record contact =
  Contact_raw :: "(string, json) dict"
  Contact_contact_id :: json
  Contact_name :: json
  Contact_short_code :: json
  Contact_default_rate_dollars :: json

record project =
  Project_raw :: "(string, json) dict"
  Project_project_id :: json
  Project_contact_id :: json
  Project_name :: json
  Project_short_code :: json
  Project_description :: json
  Project_default_rate_dollars :: json




text \<open>
  The keys of the six indexes are attribute values. As dictionary keys \<^verbatim>\<open>True\<close> and \<^verbatim>\<open>1\<close>
  are one key, as are \<^verbatim>\<open>False\<close> and \<^verbatim>\<open>0\<close>; a list or a dictionary cannot be a key
  (\<^verbatim>\<open>TypeError\<close>: unhashable).
\<close>

datatype pykey = KNone | KInt int | KStr string



record minutedock =
  api_key :: string
  users :: "user list"
  users_by_id :: "(pykey, user) dict"
  users_by_login :: "(pykey, user) dict"
  contacts :: "contact list"
  contacts_by_id :: "(pykey, contact) dict"
  contacts_by_code :: "(pykey, contact) dict"
  projects :: "project list"
  projects_by_id :: "(pykey, project) dict"
  projects_by_code :: "(pykey, project) dict"




section \<open>Searching for entries\<close>

text \<open>
  One of the three filter values of \<^verbatim>\<open>entries_search\<close>: \<^verbatim>\<open>'all'\<close> when the argument is
  \<^verbatim>\<open>None\<close>, else \<^verbatim>\<open>','.join([str(index[k].attr) for k in keys])\<close>, where a key that the
  index does not have raises \<^verbatim>\<open>KeyError\<close>.
\<close>

definition filter_value ::
  "(pykey, 'a) dict \<Rightarrow> ('a \<Rightarrow> json) \<Rightarrow> string list option \<Rightarrow> error + string" where
  "filter_value index attr keys =
     (case keys of
        None \<Rightarrow> Inr ''all''
      | Some ks \<Rightarrow>
          bind_e (map_e (\<lambda>k. case map_of index (KStr k) of
                                None \<Rightarrow> Inl (KeyError k)
                              | Some x \<Rightarrow> Inr (py_str (attr x))) ks)
            (\<lambda>ids. Inr (join '','' ids)))"

text \<open>A \<^verbatim>\<open>datetime.date\<close> and its \<^verbatim>\<open>strftime('%m/%d/%Y')\<close>.\<close>

record pydate =
  date_year :: nat
  date_month :: nat
  date_day :: nat

definition strftime_mdY :: "pydate \<Rightarrow> string" where
  "strftime_mdY d =
     zero_pad 2 (str_nat (date_month d)) @ CHR ''/'' # zero_pad 2 (str_nat (date_day d)) @
     CHR ''/'' # zero_pad 4 (str_nat (date_year d))"

text \<open>The dictionary \<^verbatim>\<open>search_dict\<close> as it is when the loop is entered.\<close>

definition search_dict ::
  "minutedock \<Rightarrow> (pydate \<times> pydate) option \<Rightarrow> string list option \<Rightarrow> string list option \<Rightarrow>
     string list option \<Rightarrow> error + (string, string) dict" where
  "search_dict md date_range user_logins contacts_arg projects_arg =
     bind_e (filter_value (users_by_login md) User_user_id user_logins) (\<lambda>v_users.
     bind_e (filter_value (contacts_by_code md) Contact_contact_id contacts_arg) (\<lambda>v_contacts.
     bind_e (filter_value (projects_by_code md) Project_project_id projects_arg) (\<lambda>v_projects.
       (let sd = setitem (setitem (setitem [] ''users'' v_users) ''contacts'' v_contacts)
                   ''projects'' v_projects
        in Inr (case date_range of
                  None \<Rightarrow> sd
                | Some (d_from, d_to) \<Rightarrow>
                    setitem (setitem sd ''from'' (strftime_mdY d_from))
                      ''to'' (strftime_mdY d_to))))))"

text \<open>
  The \<^verbatim>\<open>while True\<close> loop. It is left only by the \<^verbatim>\<open>break\<close> at a page of length zero
  or by an exception; a run that never leaves it has no result (\<open>None\<close>).
\<close>

partial_function (option) search_loop ::
  "'w transport \<Rightarrow> string \<Rightarrow> (string, string) dict \<Rightarrow> nat \<Rightarrow> json list \<Rightarrow> 'w io \<Rightarrow>
     ((error + json list) \<times> 'w io) option" where
  "search_loop t key sd offset entries st =
     (case do_get t key st ''entries.json'' (setitem sd ''offset'' (str_nat offset)) of
        (res, sd', st') \<Rightarrow>
          (case res of
             Inl e \<Rightarrow> Some (Inl e, st')
           | Inr new_entries \<Rightarrow>
               (case py_len new_entries of
                  Inl e \<Rightarrow> Some (Inl e, st')
                | Inr n \<Rightarrow>
                    if n = 0 then Some (Inr entries, st')
                    else (case py_iter new_entries of
                            Inl e \<Rightarrow> Some (Inl e, st')
                          | Inr items \<Rightarrow>
                              search_loop t key sd' (offset + n) (entries @ items) st'))))"

declare search_loop.simps [code]

text \<open>
  \<^verbatim>\<open>entries_search\<close>: the filters are encoded, the pages fetched, every record made an
  \<^verbatim>\<open>Entry\<close>, and, when \<^verbatim>\<open>projects\<close> is an empty list, the entries without a project kept.
\<close>

definition entries_search ::
  "'w transport \<Rightarrow> minutedock \<Rightarrow> 'w io \<Rightarrow> (pydate \<times> pydate) option \<Rightarrow> string list option \<Rightarrow>
     string list option \<Rightarrow> string list option \<Rightarrow> ((error + entry list) \<times> 'w io) option" where
  "entries_search t md st date_range user_logins contacts_arg projects_arg =
     (case search_dict md date_range user_logins contacts_arg projects_arg of
        Inl e \<Rightarrow> Some (Inl e, st)
      | Inr sd \<Rightarrow>
          (case search_loop t (api_key md) sd 0 [] st of
             None \<Rightarrow> None
           | Some (Inl e, st') \<Rightarrow> Some (Inl e, st')
           | Some (Inr rs, st') \<Rightarrow>
               (case map_e Entry_init rs of
                  Inl e \<Rightarrow> Some (Inl e, st')
                | Inr es \<Rightarrow>
                    Some (Inr (if projects_arg = Some []
                               then filter (\<lambda>e. project_id e = JNull) es else es), st'))))"


section \<open>Notions used to state the properties\<close>

subsection \<open>Timestamps\<close>







subsection \<open>Requests and pages\<close>

text \<open>The request that the loop sends for an offset, and the offsets for pages of given sizes.\<close>

definition page_request :: "string \<Rightarrow> (string, string) dict \<Rightarrow> nat \<Rightarrow> request" where
  "page_request key sd off =
     GET ''entries.json'' (setitem (setitem sd ''offset'' (str_nat off)) ''api_key'' key)"

fun page_offsets :: "nat \<Rightarrow> nat list \<Rightarrow> nat list" where
  "page_offsets off [] = [off]"
| "page_offsets off (n # ns) = off # page_offsets (off + n) ns"

text \<open>
  Sent the requests \<open>rqs\<close> one after the other from the world \<open>w\<close>, the transport
  returns the responses \<open>rs\<close> in this order and leaves the world \<open>w'\<close>.
\<close>

fun returns_pages :: "'w transport \<Rightarrow> 'w \<Rightarrow> request list \<Rightarrow> json list \<Rightarrow> 'w \<Rightarrow> bool" where
  "returns_pages t w [] [] w' = (w' = w)"
| "returns_pages t w (rq # rqs) (r # rs) w' =
     (fst (t w rq) = Inr r \<and> returns_pages t (snd (t w rq)) rqs rs w')"
| "returns_pages t w _ _ w' = False"

text \<open>
  Within \<open>n\<close> requests of the loop, started at an offset, the transport raises, returns
  a value that has no length, or returns a page of length zero.
\<close>

fun stops_within ::
  "nat \<Rightarrow> 'w transport \<Rightarrow> string \<Rightarrow> (string, string) dict \<Rightarrow> nat \<Rightarrow> 'w io \<Rightarrow> bool" where
  "stops_within 0 t key sd off st = False"
| "stops_within (Suc n) t key sd off st =
     (case do_get t key st ''entries.json'' (setitem sd ''offset'' (str_nat off)) of
        (res, sd', st') \<Rightarrow>
          (case res of
             Inl e \<Rightarrow> True
           | Inr page \<Rightarrow>
               (case py_len page of
                  Inl e \<Rightarrow> True
                | Inr k \<Rightarrow> k = 0 \<or> stops_within n t key sd' (off + k) st')))"

subsection \<open>Indexes\<close>



text \<open>Some key of the argument is not in the index.\<close>

definition unknown_key :: "(pykey, 'a) dict \<Rightarrow> string list option \<Rightarrow> bool" where
  "unknown_key index keys =
     (case keys of None \<Rightarrow> False | Some ks \<Rightarrow> list_ex (\<lambda>k. map_of index (KStr k) = None) ks)"




section \<open>Transports and data for the examples\<close>

text \<open>A transport that returns the responses of a script one after the other.\<close>

definition scripted :: "(error + json) list transport" where
  "scripted w rq =
     (case w of [] \<Rightarrow> (Inl (TransportError ''no response left''), []) | r # rs \<Rightarrow> (r, rs))"

text \<open>A transport that returns the same page to every request.\<close>

definition repeating :: "json \<Rightarrow> unit transport" where
  "repeating page w rq = (Inr page, w)"

definition record_a :: json where
  "record_a = JObj [(''id'', JInt 7), (''user_id'', JInt 1), (''contact_id'', JInt 2),
     (''project_id'', JNull), (''duration'', JInt 3600), (''description'', JStr ''review''),
     (''timer_active'', JBool False), (''logged_at'', JStr ''2012-07-01T10:00:00+12:00''),
     (''invoice_id'', JNull)]"

definition entry_a :: entry where
  "entry_a = \<lparr>raw = [(''id'', JInt 7), (''user_id'', JInt 1), (''contact_id'', JInt 2),
       (''project_id'', JNull), (''duration'', JInt 3600), (''description'', JStr ''review''),
       (''timer_active'', JBool False), (''logged_at'', JStr ''2012-07-01T10:00:00+12:00''),
       (''invoice_id'', JNull)],
     entry_id = JInt 7, user_id = JInt 1, contact_id = JInt 2, project_id = JNull,
     duration = JInt 3600, description = JStr ''review'', timer_active = JBool False,
     date = \<lparr>year = 2012, month = 7, day = 1, hour = 10, minute = 0, second = 0,
             utcoffset = Some 720\<rparr>\<rparr>"

definition record_b :: json where
  "record_b = JObj [(''id'', JInt 8), (''user_id'', JInt 1), (''contact_id'', JInt 2),
     (''project_id'', JInt 5), (''duration'', JInt 1800), (''description'', JStr ''call''),
     (''timer_active'', JBool True), (''logged_at'', JStr ''2012-07-02T09:30:00-05:00'')]"

definition entry_b :: entry where
  "entry_b = \<lparr>raw = [(''id'', JInt 8), (''user_id'', JInt 1), (''contact_id'', JInt 2),
       (''project_id'', JInt 5), (''duration'', JInt 1800), (''description'', JStr ''call''),
       (''timer_active'', JBool True), (''logged_at'', JStr ''2012-07-02T09:30:00-05:00'')],
     entry_id = JInt 8, user_id = JInt 1, contact_id = JInt 2, project_id = JInt 5,
     duration = JInt 1800, description = JStr ''call'', timer_active = JBool True,
     date = \<lparr>year = 2012, month = 7, day = 2, hour = 9, minute = 30, second = 0,
             utcoffset = Some (- 300)\<rparr>\<rparr>"

text \<open>Pages of fifty records each, and the filters of a search without arguments.\<close>

definition page_a :: "json list" where
  "page_a = replicate 50 record_a"

definition page_b :: "json list" where
  "page_b = replicate 50 record_b"

definition all_filters :: "(string, string) dict" where
  "all_filters = [(''users'', ''all''), (''contacts'', ''all''), (''projects'', ''all'')]"

definition user_ann :: user where
  "user_ann = \<lparr>User_raw = [(''id'', JInt 1), (''email'', JStr ''ann@example.com''),
       (''first_name'', JStr ''Ann''), (''last_name'', JStr ''Lee'')],
     User_user_id = JInt 1, User_email = ''ann@example.com'', User_login = ''ann'',
     User_first_name = JStr ''Ann'', User_last_name = JStr ''Lee''\<rparr>"


definition contact_c :: contact where
  "contact_c = \<lparr>Contact_raw = [(''id'', JInt 2), (''name'', JStr ''Customer''),
       (''short_code'', JStr ''customer''), (''default_rate_dollars'', JInt 100)],
     Contact_contact_id = JInt 2, Contact_name = JStr ''Customer'',
     Contact_short_code = JStr ''customer'', Contact_default_rate_dollars = JInt 100\<rparr>"

definition project_p :: project where
  "project_p = \<lparr>Project_raw = [(''id'', JInt 5), (''contact_id'', JInt 2),
       (''name'', JStr ''New''), (''short_code'', JStr ''new_project''),
       (''description'', JNull), (''default_rate_dollars'', JNull)],
     Project_project_id = JInt 5, Project_contact_id = JInt 2, Project_name = JStr ''New'',
     Project_short_code = JStr ''new_project'', Project_description = JNull,
     Project_default_rate_dollars = JNull\<rparr>"


definition session_a :: minutedock where
  "session_a = \<lparr>api_key = ''k'',
     users = [user_ann], users_by_id = [(KInt 1, user_ann)],
     users_by_login = [(KStr ''ann'', user_ann)],
     contacts = [contact_c], contacts_by_id = [(KInt 2, contact_c)],
     contacts_by_code = [(KStr ''customer'', contact_c)],
     projects = [project_p], projects_by_id = [(KInt 5, project_p)],
     projects_by_code = [(KStr ''new_project'', project_p)]\<rparr>"




section \<open>Dictionaries\<close>

lemma map_of_setitem: "map_of (setitem d k v) = (map_of d)(k \<mapsto> v)"
  by (simp add: setitem_def update_conv')



lemma getitem_Inr: "getitem d k = Inr v \<longleftrightarrow> map_of d k = Some v"
  by (simp add: getitem_def split: option.splits)

lemma bind_e_Inr: "bind_e m f = Inr y \<longleftrightarrow> (\<exists>x. m = Inr x \<and> f x = Inr y)"
  by (cases m) (simp_all add: bind_e_def)

section \<open>Decimal digits\<close>









section \<open>Parsing what was formatted\<close>












section \<open>Entries and their update\<close>

lemma Entry_init_Inr:
  assumes "Entry_init r = Inr e"
  shows "\<exists>s. r = JObj (raw e) \<and>
     map_of (raw e) ''id'' = Some (entry_id e) \<and>
     map_of (raw e) ''user_id'' = Some (user_id e) \<and>
     map_of (raw e) ''contact_id'' = Some (contact_id e) \<and>
     map_of (raw e) ''project_id'' = Some (project_id e) \<and>
     map_of (raw e) ''duration'' = Some (duration e) \<and>
     map_of (raw e) ''description'' = Some (description e) \<and>
     map_of (raw e) ''timer_active'' = Some (timer_active e) \<and>
     map_of (raw e) ''logged_at'' = Some (JStr s) \<and>
     strptime (drop_colon s) = Inr (date e)"
proof -
  from assms obtain d where r: "r = JObj d"
    by (cases r) (simp_all add: Entry_init_def)
  from assms [unfolded r Entry_init_def, simplified, unfolded bind_e_Inr getitem_Inr]
  obtain v1 v2 v3 v4 v5 v6 v7 v8 where
    g: "map_of d ''id'' = Some v1" "map_of d ''user_id'' = Some v2"
       "map_of d ''contact_id'' = Some v3" "map_of d ''project_id'' = Some v4"
       "map_of d ''duration'' = Some v5" "map_of d ''description'' = Some v6"
       "map_of d ''timer_active'' = Some v7" "map_of d ''logged_at'' = Some v8"
    and rest: "(case v8 of
         JStr s \<Rightarrow> bind_e (strptime (drop_colon s)) (\<lambda>dt.
           Inr \<lparr>raw = d, entry_id = v1, user_id = v2, contact_id = v3, project_id = v4,
                duration = v5, description = v6, timer_active = v7, date = dt\<rparr>)
       | _ \<Rightarrow> Inl TypeError) = Inr e"
    by blast
  from rest obtain s where v8: "v8 = JStr s"
    by (cases v8) simp_all
  from rest [unfolded v8, simplified, unfolded bind_e_Inr] obtain dt where
    dt: "strptime (drop_colon s) = Inr dt"
    and e: "e = \<lparr>raw = d, entry_id = v1, user_id = v2, contact_id = v3, project_id = v4,
                duration = v5, description = v6, timer_active = v7, date = dt\<rparr>"
    by auto
  show ?thesis
    using g dt by (simp add: e r v8)
qed

lemma map_of_new_raw:
  "map_of (new_raw e) = (map_of (raw e))(''user_id'' \<mapsto> user_id e,
     ''contact_id'' \<mapsto> contact_id e, ''project_id'' \<mapsto> project_id e,
     ''description'' \<mapsto> description e, ''logged_at'' \<mapsto> JStr (strftime (date e)))"
  by (simp add: new_raw_def map_of_setitem)

lemma sent_update:
  "sent (snd (update t key st e)) = sent st @
     [PUT (''entries/'' @ py_str (entry_id e) @ ''.json'') [(''api_key'', key)]
        (JObj [(''entry'', JObj (new_raw e))])]"
  by (simp add: update_def do_put_def Let_def)




text \<open>
  Claim C2. Whatever the state of an entry, the body that \<^verbatim>\<open>update\<close> sends maps every
  key as the raw dictionary does, except the five keys \<^verbatim>\<open>user_id\<close>, \<^verbatim>\<open>contact_id\<close>,
  \<^verbatim>\<open>project_id\<close>, \<^verbatim>\<open>description\<close> and \<^verbatim>\<open>logged_at\<close>, which take the values of the
  attributes; its keys are those of the raw dictionary and these five; in particular
  \<^verbatim>\<open>timer_active\<close> is sent as the raw dictionary has it.
\<close>
theorem update_overlays_five_keys:
  "sent (snd (update t key st e)) = sent st @
     [PUT (''entries/'' @ py_str (entry_id e) @ ''.json'') [(''api_key'', key)]
        (JObj [(''entry'', JObj (new_raw e))])] \<and>
   map_of (new_raw e) = (map_of (raw e))(''user_id'' \<mapsto> user_id e,
     ''contact_id'' \<mapsto> contact_id e, ''project_id'' \<mapsto> project_id e,
     ''description'' \<mapsto> description e, ''logged_at'' \<mapsto> JStr (strftime (date e))) \<and>
   set (map fst (new_raw e)) = set (map fst (raw e)) \<union>
     {''user_id'', ''contact_id'', ''project_id'', ''description'', ''logged_at''} \<and>
   map_of (new_raw e) ''timer_active'' = map_of (raw e) ''timer_active''"
proof -
  have "set (map fst (new_raw e)) = set (map fst (raw e)) \<union>
     {''user_id'', ''contact_id'', ''project_id'', ''description'', ''logged_at''}"
    by (simp add: new_raw_def setitem_def dom_update)
  then show ?thesis
    by (simp add: sent_update map_of_new_raw)
qed

theorem update_overlays_five_keys_witness:
  "new_raw (entry_a\<lparr>project_id := JInt 5, timer_active := JBool True\<rparr>) =
     [(''id'', JInt 7), (''user_id'', JInt 1), (''contact_id'', JInt 2),
      (''project_id'', JInt 5), (''duration'', JInt 3600), (''description'', JStr ''review''),
      (''timer_active'', JBool False), (''logged_at'', JStr ''2012-07-01T10:00:00+1200''),
      (''invoice_id'', JNull)] \<and>
   map_of (new_raw (entry_a\<lparr>project_id := JInt 5, timer_active := JBool True\<rparr>))
     ''timer_active'' = Some (JBool False)"
proof -
  have "new_raw (entry_a\<lparr>project_id := JInt 5, timer_active := JBool True\<rparr>) =
     [(''id'', JInt 7), (''user_id'', JInt 1), (''contact_id'', JInt 2),
      (''project_id'', JInt 5), (''duration'', JInt 3600), (''description'', JStr ''review''),
      (''timer_active'', JBool False), (''logged_at'', JStr ''2012-07-01T10:00:00+1200''),
      (''invoice_id'', JNull)]"
    by code_simp
  moreover have "map_of (raw entry_a) ''timer_active'' = Some (JBool False)"
    by code_simp
  ultimately show ?thesis
    using update_overlays_five_keys
      [of scripted "''k''" "\<lparr>world = [Inr JNull], sent = []\<rparr>"
        "entry_a\<lparr>project_id := JInt 5, timer_active := JBool True\<rparr>"]
    by simp
qed


text \<open>
  Claim C8 says that the body sent by \<^verbatim>\<open>update\<close> does not contain \<^verbatim>\<open>timer_active\<close>.
  The body is a copy of the raw dictionary, which has the key: for the entry made from
  \<open>record_a\<close> the key is sent, with the value of the raw record.
\<close>
theorem update_sends_timer_active_counterexample:
  "Entry_init record_a = Inr entry_a \<and>
   sent (snd (update scripted ''k'' \<lparr>world = [Inr JNull], sent = []\<rparr> entry_a)) =
     [PUT ''entries/7.json'' [(''api_key'', ''k'')]
        (JObj [(''entry'', JObj
          [(''id'', JInt 7), (''user_id'', JInt 1), (''contact_id'', JInt 2),
           (''project_id'', JNull), (''duration'', JInt 3600),
           (''description'', JStr ''review''), (''timer_active'', JBool False),
           (''logged_at'', JStr ''2012-07-01T10:00:00+1200''), (''invoice_id'', JNull)])])] \<and>
   map_of (new_raw entry_a) ''timer_active'' = Some (JBool False)"
  by code_simp

text \<open>
  Claim C8, amended. \<^verbatim>\<open>update\<close> never writes the attribute \<^verbatim>\<open>timer_active\<close> into the
  body: whatever value the attribute was assigned, the body carries \<^verbatim>\<open>timer_active\<close> as
  the raw dictionary has it, and for an entry as the constructor made it the key is
  present in the body.
\<close>
theorem update_keeps_raw_timer_active:
  "sent (snd (update t key st (e\<lparr>timer_active := v\<rparr>))) = sent st @
     [PUT (''entries/'' @ py_str (entry_id e) @ ''.json'') [(''api_key'', key)]
        (JObj [(''entry'', JObj (new_raw e))])] \<and>
   map_of (new_raw e) ''timer_active'' = map_of (raw e) ''timer_active'' \<and>
   (Entry_init r = Inr e \<longrightarrow> map_of (new_raw e) ''timer_active'' = Some (timer_active e))"
proof -
  have "new_raw (e\<lparr>timer_active := v\<rparr>) = new_raw e"
    by (simp add: new_raw_def)
  moreover have "map_of (raw e) ''timer_active'' = Some (timer_active e)"
    if "Entry_init r = Inr e"
    using Entry_init_Inr [OF that] by blast
  ultimately show ?thesis
    by (simp add: sent_update map_of_new_raw)
qed

theorem update_keeps_raw_timer_active_witness:
  "Entry_init record_a = Inr entry_a \<and>
   sent (snd (update scripted ''k'' \<lparr>world = [Inr JNull], sent = []\<rparr>
     (entry_a\<lparr>timer_active := JBool True\<rparr>))) =
     [PUT ''entries/7.json'' [(''api_key'', ''k'')]
        (JObj [(''entry'', JObj (new_raw entry_a))])] \<and>
   map_of (new_raw entry_a) ''timer_active'' = Some (JBool False)"
proof -
  have h: "Entry_init record_a = Inr entry_a"
    by code_simp
  have i: "py_str (entry_id entry_a) = ''7''"
    by code_simp
  have v: "timer_active entry_a = JBool False"
    by (simp add: entry_a_def)
  from update_keeps_raw_timer_active
    [where t = scripted and key = "''k''" and st = "\<lparr>world = [Inr JNull], sent = []\<rparr>"
       and e = entry_a and v = "JBool True" and r = record_a]
  show ?thesis
    using h by (auto simp: i v)
qed

text \<open>
  Claim C10. \<^verbatim>\<open>update\<close> never writes the attribute \<^verbatim>\<open>duration\<close> into the body: an
  entry whose \<^verbatim>\<open>duration\<close> was assigned a new value sends what it would have sent
  without the assignment, and the \<^verbatim>\<open>duration\<close> of the body is that of the raw
  dictionary.
\<close>
theorem update_ignores_duration:
  "update t key st (e\<lparr>duration := v\<rparr>) = update t key st e \<and>
   sent (snd (update t key st (e\<lparr>duration := v\<rparr>))) = sent st @
     [PUT (''entries/'' @ py_str (entry_id e) @ ''.json'') [(''api_key'', key)]
        (JObj [(''entry'', JObj (new_raw (e\<lparr>duration := v\<rparr>)))])] \<and>
   map_of (new_raw (e\<lparr>duration := v\<rparr>)) ''duration'' = map_of (raw e) ''duration''"
proof -
  have nr: "new_raw (e\<lparr>duration := v\<rparr>) = new_raw e"
    by (simp add: new_raw_def)
  have u: "update t key st (e\<lparr>duration := v\<rparr>) = update t key st e"
    by (simp add: update_def nr)
  show ?thesis
    by (simp add: u nr sent_update map_of_new_raw)
qed

theorem update_ignores_duration_witness:
  "duration (entry_a\<lparr>duration := JInt 60\<rparr>) = JInt 60 \<and>
   map_of (new_raw (entry_a\<lparr>duration := JInt 60\<rparr>)) ''duration'' = Some (JInt 3600)"
proof -
  have "map_of (raw entry_a) ''duration'' = Some (JInt 3600)"
    by code_simp
  then show ?thesis
    using update_ignores_duration
      [where t = scripted and key = "''k''" and st = "\<lparr>world = [Inr JNull], sent = []\<rparr>"
         and e = entry_a and v = "JInt 60"]
    by simp
qed


section \<open>The pagination loop\<close>

lemma update_update_same: "AList.update k c (AList.update k a d) = AList.update k c d"
  by (induction d) auto

lemma update_absorb:
  "k1 \<noteq> k2 \<Longrightarrow>
   AList.update k1 c (AList.update k2 b (AList.update k1 a d)) =
   AList.update k2 b (AList.update k1 c d)"
  by (induction d) (auto simp: update_update_same)

lemma request_dict_absorb:
  "setitem (setitem (setitem (setitem sd ''offset'' a) ''api_key'' key) ''offset'' v)
     ''api_key'' key = setitem (setitem sd ''offset'' v) ''api_key'' key"
  by (simp add: setitem_def update_absorb update_update_same)

lemma do_get_entries:
  "do_get t key st ''entries.json'' (setitem sd ''offset'' (str_nat off)) =
     (fst (t (world st) (page_request key sd off)),
      setitem (setitem sd ''offset'' (str_nat off)) ''api_key'' key,
      \<lparr>world = snd (t (world st) (page_request key sd off)),
        sent = sent st @ [page_request key sd off]\<rparr>)"
  by (simp add: do_get_def page_request_def Let_def)

text \<open>
  Two dictionaries are alike for the loop when they give the same request for every
  offset; the dictionary that \<^verbatim>\<open>_do_get\<close> hands back is like the one it was given.
\<close>

lemma page_request_alike:
  assumes "\<And>v. setitem (setitem sd ''offset'' v) ''api_key'' key =
                 setitem (setitem sd0 ''offset'' v) ''api_key'' key"
  shows "page_request key sd off = page_request key sd0 off"
    and "setitem (setitem (setitem (setitem sd ''offset'' a) ''api_key'' key) ''offset'' v)
           ''api_key'' key = setitem (setitem sd0 ''offset'' v) ''api_key'' key"
  using assms by (simp_all add: page_request_def request_dict_absorb)

lemma search_loop_pages:
  assumes "returns_pages t (world st)
             (map (page_request key sd0) (page_offsets off (map length ps)))
             (map JArr ps @ [JArr []]) w'"
    and "\<forall>p\<in>set ps. p \<noteq> []"
    and "\<And>v. setitem (setitem sd ''offset'' v) ''api_key'' key =
               setitem (setitem sd0 ''offset'' v) ''api_key'' key"
  shows "search_loop t key sd off es st =
     Some (Inr (es @ concat ps),
           \<lparr>world = w',
             sent = sent st @ map (page_request key sd0) (page_offsets off (map length ps))\<rparr>)"
  using assms
proof (induction ps arbitrary: sd off es st)
  case Nil
  then show ?case
    by (subst search_loop.simps)
       (simp add: do_get_entries page_request_alike(1) [OF Nil.prems(3)] py_len_def)
next
  case (Cons p ps)
  let ?rq = "page_request key sd0 off"
  let ?st1 = "\<lparr>world = snd (t (world st) ?rq), sent = sent st @ [?rq]\<rparr>"
  let ?sd1 = "setitem (setitem sd ''offset'' (str_nat off)) ''api_key'' key"
  from Cons.prems(1) have r: "fst (t (world st) ?rq) = Inr (JArr p)"
    and rest: "returns_pages t (world ?st1)
        (map (page_request key sd0) (page_offsets (off + length p) (map length ps)))
        (map JArr ps @ [JArr []]) w'"
    by simp_all
  from Cons.prems(2) have ne: "p \<noteq> []" and nes: "\<forall>p\<in>set ps. p \<noteq> []"
    by simp_all
  have alike: "setitem (setitem ?sd1 ''offset'' v) ''api_key'' key =
               setitem (setitem sd0 ''offset'' v) ''api_key'' key" for v
    by (rule page_request_alike(2) [OF Cons.prems(3)])
  have "search_loop t key sd off es st =
        search_loop t key ?sd1 (off + length p) (es @ p) ?st1"
    by (subst search_loop.simps)
       (simp add: do_get_entries page_request_alike(1) [OF Cons.prems(3)] r py_len_def
          py_iter_def ne)
  also have "\<dots> = Some (Inr ((es @ p) @ concat ps),
       \<lparr>world = w', sent = sent ?st1 @
          map (page_request key sd0) (page_offsets (off + length p) (map length ps))\<rparr>)"
    by (rule Cons.IH [OF rest nes alike])
  finally show ?case
    by simp
qed

lemma returns_pages_scripted:
  "length rqs = length rs \<Longrightarrow> returns_pages scripted (map Inr rs @ rest) rqs rs rest"
  by (induction rqs rs rule: list_induct2) (simp_all add: scripted_def)

lemma map_e_length: "map_e f xs = Inr ys \<Longrightarrow> length ys = length xs"
  by (induction xs arbitrary: ys) (auto split: sum.splits)

lemma map_e_replicate: "f x = Inr y \<Longrightarrow> map_e f (replicate n x) = Inr (replicate n y)"
  by (induction n) simp_all

lemma map_e_append:
  "map_e f xs = Inr ys \<Longrightarrow> map_e f xs' = Inr ys' \<Longrightarrow> map_e f (xs @ xs') = Inr (ys @ ys')"
  by (induction xs arbitrary: ys) (auto split: sum.splits)

text \<open>
  Claim C5. When the transport answers the requests for the offsets \<open>0\<close>, \<open>|p1|\<close>,
  \<open>|p1| + |p2|\<close>, ... with the non-empty pages \<open>p1\<close>, \<open>p2\<close>, ... and then with an
  empty page, the loop sends exactly these requests, stops at the empty page and returns
  the pages concatenated in their order. Pages of sizes 50, 50 give 100 records and pages
  of sizes 50, 50, 50 give 150; a search without the empty-projects filter, all of whose
  records make entries, returns as many entries.
\<close>
theorem search_loop_concatenates_pages:
  assumes "returns_pages t (world st)
             (map (page_request (api_key md) sd) (page_offsets 0 (map length ps)))
             (map JArr ps @ [JArr []]) w'"
    and "\<forall>p\<in>set ps. p \<noteq> []"
  shows "search_loop t (api_key md) sd 0 [] st =
     Some (Inr (concat ps),
           \<lparr>world = w',
             sent = sent st @
               map (page_request (api_key md) sd) (page_offsets 0 (map length ps))\<rparr>) \<and>
     length (concat ps) = sum_list (map length ps) \<and>
     (map length ps = [50, 50] \<longrightarrow> length (concat ps) = 100) \<and>
     (map length ps = [50, 50, 50] \<longrightarrow> length (concat ps) = 150) \<and>
     (search_dict md dr ul cs pr = Inr sd \<and> pr \<noteq> Some [] \<and>
      map_e Entry_init (concat ps) = Inr es \<longrightarrow>
        entries_search t md st dr ul cs pr =
          Some (Inr es,
                \<lparr>world = w',
                  sent = sent st @
                    map (page_request (api_key md) sd) (page_offsets 0 (map length ps))\<rparr>) \<and>
        length es = sum_list (map length ps))"
proof -
  have loop: "search_loop t (api_key md) sd 0 [] st =
     Some (Inr (concat ps),
           \<lparr>world = w',
             sent = sent st @
               map (page_request (api_key md) sd) (page_offsets 0 (map length ps))\<rparr>)"
    using search_loop_pages [OF assms, of sd "[]"] by simp
  have len: "length (concat ps) = sum_list (map length ps)"
    by (simp add: length_concat)
  have search: "entries_search t md st dr ul cs pr =
          Some (Inr es,
                \<lparr>world = w',
                  sent = sent st @
                    map (page_request (api_key md) sd) (page_offsets 0 (map length ps))\<rparr>) \<and>
        length es = sum_list (map length ps)"
    if "search_dict md dr ul cs pr = Inr sd" "pr \<noteq> Some []"
       "map_e Entry_init (concat ps) = Inr es"
    using that map_e_length [OF that(3)] by (simp add: entries_search_def loop len)
  show ?thesis
    using loop len search by simp
qed


lemma Entry_init_examples:
  "Entry_init record_a = Inr entry_a" "Entry_init record_b = Inr entry_b"
  by code_simp+

lemma search_dict_all: "search_dict session_a None None None None = Inr all_filters"
  by code_simp

theorem search_loop_concatenates_pages_witness:
  "returns_pages scripted (map Inr (map JArr [page_a, page_b] @ [JArr []]))
     (map (page_request (api_key session_a) all_filters) (page_offsets 0 [50, 50]))
     (map JArr [page_a, page_b] @ [JArr []]) [] \<and>
   page_a \<noteq> [] \<and> page_b \<noteq> [] \<and>
   map length [page_a, page_b] = [50, 50] \<and>
   search_dict session_a None None None None = Inr all_filters \<and>
   map_e Entry_init (concat [page_a, page_b]) = Inr (replicate 50 entry_a @ replicate 50 entry_b) \<and>
   entries_search scripted session_a
     \<lparr>world = map Inr (map JArr [page_a, page_b] @ [JArr []]), sent = []\<rparr> None None None None =
     Some (Inr (replicate 50 entry_a @ replicate 50 entry_b),
           \<lparr>world = [],
             sent = map (page_request ''k'' all_filters) [0, 50, 100]\<rparr>) \<and>
   length (replicate 50 entry_a @ replicate 50 entry_b) = 100 \<and>
   map length [page_a, page_b, page_a] = [50, 50, 50] \<and>
   search_loop scripted ''k'' all_filters 0 []
     \<lparr>world = map Inr (map JArr [page_a, page_b, page_a] @ [JArr []]), sent = []\<rparr> =
     Some (Inr (concat [page_a, page_b, page_a]),
           \<lparr>world = [], sent = map (page_request ''k'' all_filters) [0, 50, 100, 150]\<rparr>) \<and>
   length (concat [page_a, page_b, page_a]) = 150"
proof -
  have k: "api_key session_a = ''k''"
    by (simp add: session_a_def)
  have len: "length page_a = 50" "length page_b = 50"
    by (simp_all add: page_a_def page_b_def)
  have l: "map length [page_a, page_b] = [50, 50]"
    "map length [page_a, page_b, page_a] = [50, 50, 50]"
    by (simp_all add: len)
  have ne: "\<forall>p\<in>set [page_a, page_b]. p \<noteq> []" "\<forall>p\<in>set [page_a, page_b, page_a]. p \<noteq> []"
    by (simp_all add: page_a_def page_b_def)
  have r2: "returns_pages scripted
     (world \<lparr>world = map Inr (map JArr [page_a, page_b] @ [JArr []]), sent = []\<rparr>)
     (map (page_request (api_key session_a) all_filters)
        (page_offsets 0 (map length [page_a, page_b])))
     (map JArr [page_a, page_b] @ [JArr []]) []"
    using returns_pages_scripted
      [of "map (page_request (api_key session_a) all_filters)
             (page_offsets 0 (map length [page_a, page_b]))"
          "map JArr [page_a, page_b] @ [JArr []]" "[]"]
    by simp
  have r3: "returns_pages scripted
     (world \<lparr>world = map Inr (map JArr [page_a, page_b, page_a] @ [JArr []]), sent = []\<rparr>)
     (map (page_request (api_key session_a) all_filters)
        (page_offsets 0 (map length [page_a, page_b, page_a])))
     (map JArr [page_a, page_b, page_a] @ [JArr []]) []"
    using returns_pages_scripted
      [of "map (page_request (api_key session_a) all_filters)
             (page_offsets 0 (map length [page_a, page_b, page_a]))"
          "map JArr [page_a, page_b, page_a] @ [JArr []]" "[]"]
    by simp
  have m: "map_e Entry_init (concat [page_a, page_b]) =
      Inr (replicate 50 entry_a @ replicate 50 entry_b)"
    using map_e_append
      [OF map_e_replicate [where f = Entry_init and n = 50, OF Entry_init_examples(1)]
          map_e_replicate [where f = Entry_init and n = 50, OF Entry_init_examples(2)]]
    by (simp add: page_a_def page_b_def)
  note w2 = search_loop_concatenates_pages [OF r2 ne(1),
      where dr = None and ul = None and cs = None and pr = None
        and es = "replicate 50 entry_a @ replicate 50 entry_b"]
  note w3 = search_loop_concatenates_pages [OF r3 ne(2),
      where dr = None and ul = None and cs = None and pr = None and es = "[]"]
  have e2: "entries_search scripted session_a
     \<lparr>world = map Inr (map JArr [page_a, page_b] @ [JArr []]), sent = []\<rparr> None None None None =
     Some (Inr (replicate 50 entry_a @ replicate 50 entry_b),
           \<lparr>world = [], sent = map (page_request ''k'' all_filters) [0, 50, 100]\<rparr>)"
    using w2 m search_dict_all by (simp add: k len)
  have e3: "search_loop scripted ''k'' all_filters 0 []
     \<lparr>world = map Inr (map JArr [page_a, page_b, page_a] @ [JArr []]), sent = []\<rparr> =
     Some (Inr (concat [page_a, page_b, page_a]),
           \<lparr>world = [], sent = map (page_request ''k'' all_filters) [0, 50, 100, 150]\<rparr>)"
    using w3 by (simp add: k len)
  have "length (concat [page_a, page_b, page_a]) = 150"
    using w3 by (simp add: len)
  then show ?thesis
    using r2 ne(1) m e2 e3 search_dict_all by (simp add: k len)
qed

subsection \<open>Termination\<close>

lemma py_len_iter: "py_len x = Inr n \<Longrightarrow> \<exists>items. py_iter x = Inr items"
  by (cases x) (simp_all add: py_len_def py_iter_def)

lemma search_loop_Some_stops:
  assumes "search_loop t key sd off es st = Some r"
  shows "\<exists>n. stops_within n t key sd off st"
proof (rule search_loop.raw_induct
    [where P = "\<lambda>t key sd off es st r. \<exists>n. stops_within n t key sd off st", OF _ assms],
    goal_cases)
  case (1 loop t key sd off es st r)
  obtain res sd' st' where
    g: "do_get t key st ''entries.json'' (setitem sd ''offset'' (str_nat off)) = (res, sd', st')"
    by (cases "do_get t key st ''entries.json'' (setitem sd ''offset'' (str_nat off))")
  show ?case
  proof (cases res)
    case (Inl e)
    then have "stops_within (Suc 0) t key sd off st"
      by (simp add: g)
    then show ?thesis ..
  next
    case (Inr page)
    show ?thesis
    proof (cases "py_len page")
      case (Inl e)
      then have "stops_within (Suc 0) t key sd off st"
        by (simp add: g \<open>res = Inr page\<close>)
      then show ?thesis ..
    next
      case len: (Inr k)
      show ?thesis
      proof (cases "k = 0")
        case True
        then have "stops_within (Suc 0) t key sd off st"
          by (simp add: g \<open>res = Inr page\<close> len)
        then show ?thesis ..
      next
        case False
        from py_len_iter [OF len] obtain items where it: "py_iter page = Inr items"
          by blast
        from 1(2) have "loop t key sd' (off + k) (es @ items) st' = Some r"
          by (simp add: g \<open>res = Inr page\<close> len False it)
        from 1(1) [OF this] obtain n where "stops_within n t key sd' (off + k) st'"
          by blast
        then have "stops_within (Suc n) t key sd off st"
          by (simp add: g \<open>res = Inr page\<close> len)
        then show ?thesis ..
      qed
    qed
  qed
qed

lemma stops_search_loop_Some:
  assumes "stops_within n t key sd off st"
  shows "\<exists>r. search_loop t key sd off es st = Some r"
  using assms
proof (induction n arbitrary: sd off es st)
  case 0
  then show ?case by simp
next
  case (Suc n)
  obtain res sd' st' where
    g: "do_get t key st ''entries.json'' (setitem sd ''offset'' (str_nat off)) = (res, sd', st')"
    by (cases "do_get t key st ''entries.json'' (setitem sd ''offset'' (str_nat off))")
  show ?case
  proof (cases res)
    case (Inl e)
    then show ?thesis
      by (subst search_loop.simps) (simp add: g)
  next
    case (Inr page)
    show ?thesis
    proof (cases "py_len page")
      case (Inl e)
      then show ?thesis
        by (subst search_loop.simps) (simp add: g \<open>res = Inr page\<close>)
    next
      case len: (Inr k)
      show ?thesis
      proof (cases "k = 0")
        case True
        then show ?thesis
          by (subst search_loop.simps) (simp add: g \<open>res = Inr page\<close> len)
      next
        case False
        from py_len_iter [OF len] obtain items where it: "py_iter page = Inr items"
          by blast
        from Suc.prems have "stops_within n t key sd' (off + k) st'"
          by (simp add: g \<open>res = Inr page\<close> len False)
        from Suc.IH [OF this] obtain r where
          "search_loop t key sd' (off + k) (es @ items) st' = Some r"
          by blast
        then show ?thesis
          by (subst search_loop.simps) (simp add: g \<open>res = Inr page\<close> len False it)
      qed
    qed
  qed
qed

lemma repeating_never_stops:
  assumes "py_len page = Inr k" "k \<noteq> 0"
  shows "\<not> stops_within n (repeating page) key sd off st"
  by (induction n arbitrary: sd off st) (simp_all add: do_get_def repeating_def assms Let_def)

text \<open>
  Claim C6 says that the loop terminates for every sequence of responses. With a transport
  that returns the same page of one record to every request, the loop, and the search
  that runs it, never return.
\<close>
theorem search_loop_diverges_counterexample:
  "search_loop (repeating (JArr [record_a])) ''k'' all_filters 0 [] \<lparr>world = (), sent = []\<rparr> =
     None \<and>
   entries_search (repeating (JArr [record_a])) session_a \<lparr>world = (), sent = []\<rparr>
     None None None None = None"
proof -
  have "py_len (JArr [record_a]) = Inr 1"
    by (simp add: py_len_def)
  note never = repeating_never_stops [OF this]
  have none: "search_loop (repeating (JArr [record_a])) key sd off es st = None"
    for key sd off es st
  proof (rule ccontr)
    assume "search_loop (repeating (JArr [record_a])) key sd off es st \<noteq> None"
    then obtain r where "search_loop (repeating (JArr [record_a])) key sd off es st = Some r"
      by blast
    from search_loop_Some_stops [OF this] never show False
      by simp
  qed
  have "entries_search (repeating (JArr [record_a])) session_a \<lparr>world = (), sent = []\<rparr>
     None None None None = None"
    unfolding entries_search_def search_dict_all by (simp add: none)
  with none show ?thesis
    by simp
qed

text \<open>
  Claim C6, amended. The loop returns exactly when, within finitely many requests, the
  transport raises or returns a page of length zero (or a value that has no length).
\<close>
theorem search_loop_terminates_iff:
  "(\<exists>r. search_loop t key sd off es st = Some r) \<longleftrightarrow> (\<exists>n. stops_within n t key sd off st)"
  using search_loop_Some_stops stops_search_loop_Some by blast

theorem search_loop_terminates_iff_witness:
  "stops_within 3 scripted ''k'' all_filters 0
     \<lparr>world = [Inr (JArr [record_a]), Inr (JArr [record_a]), Inr (JArr [])], sent = []\<rparr> \<and>
   (\<exists>r. search_loop scripted ''k'' all_filters 0 []
     \<lparr>world = [Inr (JArr [record_a]), Inr (JArr [record_a]), Inr (JArr [])], sent = []\<rparr> = Some r)"
proof -
  have h: "stops_within 3 scripted ''k'' all_filters 0
     \<lparr>world = [Inr (JArr [record_a]), Inr (JArr [record_a]), Inr (JArr [])], sent = []\<rparr>"
    by code_simp
  then show ?thesis
    using search_loop_terminates_iff
      [where t = scripted and key = "''k''" and sd = all_filters and off = 0 and es = "[]"
         and st = "\<lparr>world = [Inr (JArr [record_a]), Inr (JArr [record_a]), Inr (JArr [])],
                    sent = []\<rparr>"]
    by blast
qed


section \<open>The filters of a search\<close>

lemma map_e_Inl_ex: "map_e f xs = Inl e \<Longrightarrow> \<exists>x\<in>set xs. f x = Inl e"
  by (induction xs) (auto split: sum.splits)

lemma map_e_Inr_all: "map_e f xs = Inr ys \<Longrightarrow> \<forall>x\<in>set xs. \<exists>y. f x = Inr y"
  by (induction xs arbitrary: ys) (auto split: sum.splits)


lemma filter_value_Inl: "filter_value index attr keys = Inl e \<Longrightarrow> \<exists>k. e = KeyError k"
proof (cases keys)
  case None
  assume "filter_value index attr keys = Inl e"
  with None show ?thesis
    by (simp add: filter_value_def)
next
  case (Some ks)
  assume "filter_value index attr keys = Inl e"
  with Some have "map_e (\<lambda>k. case map_of index (KStr k) of
                                None \<Rightarrow> Inl (KeyError k)
                              | Some x \<Rightarrow> Inr (py_str (attr x))) ks = Inl e"
    by (simp add: filter_value_def bind_e_def split: sum.splits)
  from map_e_Inl_ex [OF this] show ?thesis
    by (auto split: option.splits)
qed

lemma filter_value_unknown:
  assumes "unknown_key index keys"
  shows "\<exists>k. filter_value index attr keys = Inl (KeyError k)"
proof -
  from assms obtain ks k where ks: "keys = Some ks" and k: "k \<in> set ks"
    "map_of index (KStr k) = None"
    by (auto simp: unknown_key_def list_ex_iff split: option.splits)
  let ?f = "\<lambda>k. case map_of index (KStr k) of
                   None \<Rightarrow> Inl (KeyError k)
                 | Some x \<Rightarrow> Inr (py_str (attr x))"
  have "\<exists>e. map_e ?f ks = Inl e"
  proof (cases "map_e ?f ks")
    case (Inl e)
    then show ?thesis by blast
  next
    case (Inr ys)
    from map_e_Inr_all [OF this] k show ?thesis
      by auto
  qed
  then obtain e where "filter_value index attr keys = Inl e"
    by (auto simp: filter_value_def ks bind_e_def)
  with filter_value_Inl [OF this] show ?thesis
    by auto
qed

lemma filter_value_cases:
  "(\<exists>k. filter_value index attr keys = Inl (KeyError k)) \<or>
   (\<exists>v. filter_value index attr keys = Inr v)"
  using filter_value_Inl [of index attr keys]
  by (cases "filter_value index attr keys") auto

lemma search_dict_unknown:
  assumes "unknown_key (users_by_login md) ul \<or> unknown_key (contacts_by_code md) cs \<or>
           unknown_key (projects_by_code md) pr"
  shows "\<exists>k. search_dict md dr ul cs pr = Inl (KeyError k)"
proof -
  note cu = filter_value_cases [of "users_by_login md" User_user_id ul]
  note cc = filter_value_cases [of "contacts_by_code md" Contact_contact_id cs]
  note uu = filter_value_unknown [of "users_by_login md" ul User_user_id]
  note uc = filter_value_unknown [of "contacts_by_code md" cs Contact_contact_id]
  note up = filter_value_unknown [of "projects_by_code md" pr Project_project_id]
  show ?thesis
    using assms cu cc uu uc up
    unfolding search_dict_def bind_e_def by (auto split: sum.splits)
qed

text \<open>
  Claim C7. A search with a user login, a contact code or a project code that the index
  of its kind does not have ends with \<^verbatim>\<open>KeyError\<close> (a \<^verbatim>\<open>LookupError\<close>), and the state
  after the call is the state before it: no request was sent.
\<close>
theorem entries_search_unknown_key:
  assumes "unknown_key (users_by_login md) ul \<or> unknown_key (contacts_by_code md) cs \<or>
           unknown_key (projects_by_code md) pr"
  shows "\<exists>k. entries_search t md st dr ul cs pr = Some (Inl (KeyError k), st)"
  using search_dict_unknown [OF assms, of dr] by (auto simp: entries_search_def)

theorem entries_search_unknown_key_witness:
  "unknown_key (users_by_login session_a) (Some [''unknownuser'']) \<and>
   entries_search scripted session_a \<lparr>world = [Inr (JArr [record_a]), Inr (JArr [])], sent = []\<rparr>
     None (Some [''unknownuser'']) None None =
     Some (Inl (KeyError ''unknownuser''),
           \<lparr>world = [Inr (JArr [record_a]), Inr (JArr [])], sent = []\<rparr>)"
proof -
  have h: "unknown_key (users_by_login session_a) (Some [''unknownuser''])"
    by code_simp
  have e: "search_dict session_a None (Some [''unknownuser'']) None None =
      Inl (KeyError ''unknownuser'')"
    by code_simp
  from entries_search_unknown_key [of session_a "Some [''unknownuser'']" None None scripted
      "\<lparr>world = [Inr (JArr [record_a]), Inr (JArr [])], sent = []\<rparr>" None, OF disjI1 [OF h]]
  show ?thesis
    using h by (auto simp: entries_search_def e)
qed

text \<open>
  Claim C3. Every entry that a search with an empty list of projects returns has no
  project: its \<^verbatim>\<open>project_id\<close> is \<^verbatim>\<open>None\<close>.
\<close>
theorem entries_search_no_project:
  assumes "entries_search t md st dr ul cs (Some []) = Some (Inr es, st')"
  shows "\<forall>e\<in>set es. project_id e = JNull"
  using assms
  by (auto simp: entries_search_def split: sum.splits option.splits prod.splits)

theorem entries_search_no_project_witness:
  "entries_search scripted session_a
     \<lparr>world = [Inr (JArr [record_a, record_b]), Inr (JArr [])], sent = []\<rparr>
     None None None (Some []) =
     Some (Inr [entry_a],
           \<lparr>world = [], sent = [page_request ''k'' (setitem all_filters ''projects'' []) 0,
                                page_request ''k'' (setitem all_filters ''projects'' []) 2]\<rparr>) \<and>
   project_id entry_a = JNull \<and> project_id entry_b = JInt 5"
proof -
  have h: "entries_search scripted session_a
     \<lparr>world = [Inr (JArr [record_a, record_b]), Inr (JArr [])], sent = []\<rparr>
     None None None (Some []) =
     Some (Inr [entry_a],
           \<lparr>world = [], sent = [page_request ''k'' (setitem all_filters ''projects'' []) 0,
                                page_request ''k'' (setitem all_filters ''projects'' []) 2]\<rparr>)"
    by code_simp
  from entries_search_no_project [OF h] show ?thesis
    using h by (simp add: entry_b_def)
qed


section \<open>The query values that a search sends\<close>











section \<open>The indexes of the catalogue\<close>















end
